theory Spec2Isabelle
  imports Complex_Main
begin

section \<open>The join relay of \<open>api/join.js\<close>\<close>

text \<open>
  The module exports one request handler. It validates the inbound request, builds an
  ordered list of upstream attempts from the process configuration, tries them one after
  the other and answers with the first success or with the last failure.

  Strings are byte strings: a JavaScript string in UTF-8, where a surrogate without its
  partner takes the three bytes its code point would take. The inbound fields \<open>code\<close> and
  \<open>name\<close> are strings, as the interface declares them; an absent field is \<open>None\<close>. What
  the runtime provides and the module only calls (\<open>JSON.parse\<close>, \<open>JSON.stringify\<close>,
  \<open>encodeURIComponent\<close>, \<open>fetch\<close>) is a parameter of the model, collected in the record
  \<open>platform\<close>.
\<close>

subsection \<open>Values\<close>

datatype json =
    JNull
  | JBool bool
  | JNum real
  | JStr string
  | JArr "json list"
  | JObj "(string \<times> json) list"

datatype http_method = GET | POST

text \<open>The object literals pushed onto the attempt list: \<open>{ info, method, url, body }\<close>;
  the GET literal has no \<open>body\<close>. The field \<open>method\<close> is \<open>meth\<close> here, \<open>method\<close> being
  a keyword.\<close>

record attempt =
  info :: string
  meth :: http_method
  url :: string
  body :: "json option"

text \<open>The module constants read from the environment when the module is loaded.\<close>

record config =
  TIMEOUT_MS :: nat
  UPSTREAM_URLS :: "string list"
  UPSTREAM_BASE :: string
  UPSTREAM_HEADERS :: "(string \<times> string) list"
  CORS_ORIGIN :: string

subsection \<open>The network\<close>

text \<open>
  One call of \<open>fetch(a.url, opts)\<close>: the target, the options the handler sets, and the
  delay after which the abort signal passed in \<open>opts.signal\<close> fires.
\<close>

record fetch_call =
  call_url :: string
  call_method :: http_method
  call_headers :: "(string \<times> string) list option"
  call_body :: "string option"
  call_abort_after :: nat

text \<open>
  What a call gives back. \<open>Rejected\<close>: the promise of \<open>fetch\<close> rejects (the host is
  unreachable, or the signal aborted the call before a response arrived).
  \<open>Resolved st t\<close>: a response with status \<open>st\<close> arrived; \<open>t\<close> is the text of its body,
  or \<open>None\<close> when \<open>upstream.text()\<close> rejects (the connection broke, or the signal fired,
  while the body was read).
\<close>

datatype fetch_result = Rejected | Resolved nat "string option"

text \<open>What the handler lets escape: the \<open>URIError\<close> of \<open>encodeURIComponent\<close>, which is called
  outside every \<open>try\<close>.\<close>

datatype thrown = URIError

text \<open>
  The runtime. \<open>JSON_parse\<close> is \<open>None\<close> where \<open>JSON.parse\<close> throws, and
  \<open>encodeURIComponent\<close> is \<open>None\<close> where \<open>encodeURIComponent\<close> throws, which it does on a
  string that holds a surrogate without its partner. The network answers a call knowing
  the calls made before it in the same request, so that two calls to one address may
  differ.
\<close>

record platform =
  JSON_parse :: "string \<Rightarrow> json option"
  JSON_stringify :: "json \<Rightarrow> string"
  encodeURIComponent :: "string \<Rightarrow> string option"
  fetch :: "fetch_call list \<Rightarrow> fetch_call \<Rightarrow> fetch_result"

text \<open>\<open>Response.ok\<close>: the status is in the range 200 to 299.\<close>

definition response_ok :: "nat \<Rightarrow> bool" where
  "response_ok st = (200 \<le> st \<and> st \<le> 299)"

subsection \<open>Building the attempts\<close>

text \<open>The object \<open>{ code, name }\<close>.\<close>

definition join_payload :: "string \<Rightarrow> string \<Rightarrow> json" where
  "join_payload code name = JObj [(''code'', JStr code), (''name'', JStr name)]"

text \<open>The two pushes made for one URL \<open>u\<close>, with the query string \<open>q\<close>.\<close>

definition post_then_get :: "string \<Rightarrow> string \<Rightarrow> string \<Rightarrow> string \<Rightarrow> attempt list" where
  "post_then_get code name q u =
     [\<lparr>info = ''POST '' @ u, meth = POST, url = u, body = Some (join_payload code name)\<rparr>,
      \<lparr>info = ''GET '' @ u @ ''?'' @ q, meth = GET, url = u @ ''?'' @ q, body = None\<rparr>]"

text \<open>The template \<open>`code=${enc(code)}&name=${enc(name)}`\<close>: \<open>enc(code)\<close> is evaluated
  first, then \<open>enc(name)\<close>, and the error of either escapes.\<close>

definition get_query :: "platform \<Rightarrow> string \<Rightarrow> string \<Rightarrow> thrown + string" where
  "get_query P code name =
     (case encodeURIComponent P code of
        None \<Rightarrow> Inl URIError
      | Some ec \<Rightarrow>
          (case encodeURIComponent P name of
             None \<Rightarrow> Inl URIError
           | Some en \<Rightarrow> Inr (''code='' @ ec @ ''&name='' @ en)))"

text \<open>\<open>getQuery\<close> is computed before the loop over \<open>urls\<close>, also when \<open>urls\<close> is empty.\<close>

definition defaultCandidates :: "platform \<Rightarrow> config \<Rightarrow> string \<Rightarrow> string \<Rightarrow> string \<Rightarrow> thrown + attempt list" where
  "defaultCandidates P cfg base code name =
     (let roots = (if base \<noteq> [] then [base] else []);
          urls = (if UPSTREAM_URLS cfg \<noteq> [] then UPSTREAM_URLS cfg
                  else concat (map (\<lambda>r. [r @ ''/api/join'', r @ ''/v1/join'', r @ ''/join'']) roots))
      in case get_query P code name of
           Inl e \<Rightarrow> Inl e
         | Inr getQuery \<Rightarrow> Inr (concat (map (post_then_get code name getQuery) urls)))"

text \<open>Lines 66 to 76 of the handler.\<close>

definition build_attempts :: "platform \<Rightarrow> config \<Rightarrow> string \<Rightarrow> string \<Rightarrow> thrown + attempt list" where
  "build_attempts P cfg code name =
     (if UPSTREAM_URLS cfg \<noteq> [] then
        (case get_query P code name of
           Inl e \<Rightarrow> Inl e
         | Inr q \<Rightarrow> Inr (concat (map (post_then_get code name q) (UPSTREAM_URLS cfg))))
      else defaultCandidates P cfg (UPSTREAM_BASE cfg) code name)"

subsection \<open>One attempt\<close>

text \<open>The value the inner function returns: \<open>{ ok, status, data, info }\<close>. Its \<open>info\<close>
  is the field \<open>via\<close> here, \<open>info\<close> being the field of the attempt.\<close>

record outcome =
  ok :: bool
  status :: nat
  data :: json
  via :: string

text \<open>\<open>rawText ? JSON.parse(rawText) : {}\<close>, and \<open>rawText\<close> itself when the parse throws.\<close>

definition parse_body :: "platform \<Rightarrow> string \<Rightarrow> json" where
  "parse_body P rawText =
     (if rawText \<noteq> [] then
        (case JSON_parse P rawText of Some v \<Rightarrow> v | None \<Rightarrow> JStr rawText)
      else JObj [])"

text \<open>\<open>await upstream.text().catch(() => "")\<close>.\<close>

definition read_text :: "string option \<Rightarrow> string" where
  "read_text t = (case t of Some s \<Rightarrow> s | None \<Rightarrow> [])"

text \<open>The options of the call: headers and body for POST only.\<close>

definition fetch_opts :: "platform \<Rightarrow> config \<Rightarrow> nat \<Rightarrow> attempt \<Rightarrow> fetch_call" where
  "fetch_opts P cfg ms a =
     (if meth a = POST then
        \<lparr>call_url = url a, call_method = meth a,
         call_headers = Some (UPSTREAM_HEADERS cfg),
         call_body = map_option (JSON_stringify P) (body a),
         call_abort_after = ms\<rparr>
      else
        \<lparr>call_url = url a, call_method = meth a,
         call_headers = None, call_body = None, call_abort_after = ms\<rparr>)"

text \<open>
  The function passed to \<open>withTimeout\<close>, run under a controller that aborts after \<open>ms\<close>
  milliseconds. \<open>Inl ()\<close>: it throws; \<open>hist\<close> holds the calls made so far.
\<close>

definition attempt_body :: "platform \<Rightarrow> config \<Rightarrow> fetch_call list \<Rightarrow> attempt \<Rightarrow> nat \<Rightarrow> unit + outcome" where
  "attempt_body P cfg hist a ms =
     (case fetch P hist (fetch_opts P cfg ms a) of
        Rejected \<Rightarrow> Inl ()
      | Resolved st t \<Rightarrow>
          (let rawText = read_text t;
               d = parse_body P rawText
           in if response_ok st
              then Inr \<lparr>ok = True, status = st, data = d, via = info a\<rparr>
              else Inr \<lparr>ok = False, status = st, data = d, via = info a\<rparr>))"

text \<open>\<open>withTimeout(promise, ms)\<close> starts the timer, runs \<open>promise\<close> under the controller
  and clears the timer; \<open>run\<close> is what \<open>promise\<close> gives.\<close>

definition withTimeout :: "(nat \<Rightarrow> 'a) \<Rightarrow> nat \<Rightarrow> 'a" where
  "withTimeout promise ms = promise ms"

definition run_attempt :: "platform \<Rightarrow> config \<Rightarrow> fetch_call list \<Rightarrow> attempt \<Rightarrow> unit + outcome" where
  "run_attempt P cfg hist a = withTimeout (attempt_body P cfg hist a) (TIMEOUT_MS cfg)"

text \<open>The call that running \<open>a\<close> makes.\<close>

definition call_of :: "platform \<Rightarrow> config \<Rightarrow> attempt \<Rightarrow> fetch_call" where
  "call_of P cfg a = fetch_opts P cfg (TIMEOUT_MS cfg) a"

subsection \<open>The response\<close>

datatype reply =
    NoReply
  | ErrorReply string
  | JoinedReply nat string json
  | FailedReply string json

text \<open>\<open>ErrorReply e\<close> is \<open>{ error: e }\<close>; \<open>JoinedReply st v d\<close> is
  \<open>{ joined: true, upstreamStatus: st, via: v, data: d }\<close>; \<open>FailedReply e d\<close> is
  \<open>{ joined: false, error: e, upstreamData: d }\<close>; \<open>NoReply\<close> is \<open>end()\<close>.\<close>

record response =
  res_headers :: "(string \<times> string) list"
  res_status :: nat
  res_body :: reply

definition send :: "response \<Rightarrow> nat \<Rightarrow> reply \<Rightarrow> response" where
  "send res st b = res\<lparr>res_status := st, res_body := b\<rparr>"

text \<open>The variable \<open>lastError\<close>; the literal of the catch clause has no \<open>data\<close>.\<close>

record last_error =
  le_status :: nat
  le_message :: string
  le_data :: "json option"

subsection \<open>The loop\<close>

text \<open>
  \<open>for (const a of attempts)\<close>. \<open>Inl\<close>: the loop returned a response from inside;
  \<open>Inr\<close>: it ran to its end, with the final \<open>lastError\<close>. The second component is the
  list of calls made, oldest first.
\<close>

fun attempt_loop ::
  "platform \<Rightarrow> config \<Rightarrow> response \<Rightarrow> attempt list \<Rightarrow> last_error \<Rightarrow> fetch_call list
     \<Rightarrow> (response + last_error) \<times> fetch_call list" where
  "attempt_loop P cfg res [] lastError hist = (Inr lastError, hist)"
| "attempt_loop P cfg res (a # as) lastError hist =
     (let hist' = hist @ [call_of P cfg a] in
      case run_attempt P cfg hist a of
        Inr result \<Rightarrow>
          if ok result then
            (Inl (send res 200 (JoinedReply (status result) (via result) (data result))), hist')
          else
            attempt_loop P cfg res as
              \<lparr>le_status = status result,
               le_message = ''Upstream error via '' @ via result,
               le_data = Some (data result)\<rparr> hist'
      | Inl _ \<Rightarrow>
          attempt_loop P cfg res as
            \<lparr>le_status = 502,
             le_message = ''Fetch failed (timeout/CORS/host) via '' @ info a,
             le_data = None\<rparr> hist')"

subsection \<open>The handler\<close>

record join_fields =
  code :: "string option"
  name :: "string option"

record request =
  req_method :: string
  req_body :: "join_fields option"

text \<open>\<open>!x\<close> for a field that is a string or absent.\<close>

definition falsy :: "string option \<Rightarrow> bool" where
  "falsy x = (case x of None \<Rightarrow> True | Some s \<Rightarrow> s = [])"

text \<open>\<open>lastError.data ?? null\<close>.\<close>

definition or_null :: "json option \<Rightarrow> json" where
  "or_null d = (case d of None \<Rightarrow> JNull | Some v \<Rightarrow> v)"

text \<open>\<open>lastError.status || 502\<close>.\<close>

definition status_or_502 :: "nat \<Rightarrow> nat" where
  "status_or_502 st = (if st \<noteq> 0 then st else 502)"

definition cors_headers :: "config \<Rightarrow> (string \<times> string) list" where
  "cors_headers cfg =
     [(''Access-Control-Allow-Origin'', if CORS_ORIGIN cfg \<noteq> [] then CORS_ORIGIN cfg else ''*''),
      (''Access-Control-Allow-Methods'', ''POST,OPTIONS''),
      (''Access-Control-Allow-Headers'', ''Content-Type'')]"

definition no_attempts :: last_error where
  "no_attempts = \<lparr>le_status = 500, le_message = ''No attempts made.'', le_data = None\<rparr>"

text \<open>The final statement of the handler.\<close>

definition give_up :: "response \<Rightarrow> last_error \<Rightarrow> response" where
  "give_up res lastError =
     send res (status_or_502 (le_status lastError))
       (FailedReply (le_message lastError) (or_null (le_data lastError)))"

text \<open>Lines 78 to 131: the loop from \<open>lastError = { status: 500, message: "No attempts made." }\<close>
  and the final statement.\<close>

definition dispatch :: "platform \<Rightarrow> config \<Rightarrow> response \<Rightarrow> attempt list \<Rightarrow> response \<times> fetch_call list" where
  "dispatch P cfg res attempts =
     (case attempt_loop P cfg res attempts no_attempts [] of
        (Inl r, hist) \<Rightarrow> (r, hist)
      | (Inr lastError, hist) \<Rightarrow> (give_up res lastError, hist))"

definition fresh_response :: "config \<Rightarrow> response" where
  "fresh_response cfg = \<lparr>res_headers = cors_headers cfg, res_status = 200, res_body = NoReply\<rparr>"

text \<open>The handler gives the response it sends, or \<open>Inl\<close> when an error escapes it and it
  sends none; the second component is the list of calls made.\<close>

definition handler :: "platform \<Rightarrow> config \<Rightarrow> request \<Rightarrow> (thrown + response) \<times> fetch_call list" where
  "handler P cfg req =
     (let res = fresh_response cfg in
      if req_method req = ''OPTIONS'' then (Inr (send res 204 NoReply), [])
      else if req_method req \<noteq> ''POST'' then
        (Inr (send res 405 (ErrorReply ''Use POST /api/join with JSON { code, name }'')), [])
      else
        (let flds = (case req_body req of Some b \<Rightarrow> b | None \<Rightarrow> \<lparr>code = None, name = None\<rparr>) in
         if falsy (code flds) \<or> falsy (name flds) then
           (Inr (send res 400 (ErrorReply ''Missing code or name'')), [])
         else
           (case build_attempts P cfg (the (code flds)) (the (name flds)) of
              Inl e \<Rightarrow> (Inl e, [])
            | Inr attempts \<Rightarrow>
                (case dispatch P cfg res attempts of (r, hist) \<Rightarrow> (Inr r, hist)))))"

text \<open>What the building of the attempts gives for a request: \<open>None\<close> when the handler
  returns before it builds any, \<open>Some (Inl e)\<close> when the building throws, \<open>Some (Inr as)\<close>
  when it completes with the list \<open>as\<close>.\<close>

definition candidates_of :: "platform \<Rightarrow> config \<Rightarrow> request \<Rightarrow> (thrown + attempt list) option" where
  "candidates_of P cfg req =
     (if req_method req = ''OPTIONS'' then None
      else if req_method req \<noteq> ''POST'' then None
      else
        (let flds = (case req_body req of Some b \<Rightarrow> b | None \<Rightarrow> \<lparr>code = None, name = None\<rparr>) in
         if falsy (code flds) \<or> falsy (name flds) then None
         else Some (build_attempts P cfg (the (code flds)) (the (name flds)))))"

subsection \<open>The run of a sequence\<close>

text \<open>An attempt succeeds when its function returns \<open>ok: true\<close>; it fails when the
  function returns \<open>ok: false\<close> or throws.\<close>

definition succeeded :: "unit + outcome \<Rightarrow> bool" where
  "succeeded x = (case x of Inr r \<Rightarrow> ok r | Inl _ \<Rightarrow> False)"

text \<open>What running the \<open>i\<close>-th attempt of \<open>as\<close> gives once the attempts before it have
  run, the loop having started with the calls \<open>hist\<close> made.\<close>

definition nth_result :: "platform \<Rightarrow> config \<Rightarrow> fetch_call list \<Rightarrow> attempt list \<Rightarrow> nat \<Rightarrow> unit + outcome" where
  "nth_result P cfg hist as i =
     run_attempt P cfg (hist @ map (call_of P cfg) (take i as)) (as ! i)"

text \<open>The value of \<open>lastError\<close> that a failed attempt \<open>a\<close> leaves, by what running it gave.\<close>

definition failure_of :: "attempt \<Rightarrow> unit + outcome \<Rightarrow> last_error" where
  "failure_of a x =
     (case x of
        Inr r \<Rightarrow> \<lparr>le_status = status r, le_message = ''Upstream error via '' @ info a,
                  le_data = Some (data r)\<rparr>
      | Inl _ \<Rightarrow> \<lparr>le_status = 502,
                  le_message = ''Fetch failed (timeout/CORS/host) via '' @ info a,
                  le_data = None\<rparr>)"

subsection \<open>A sample runtime and sample configurations\<close>

text \<open>
  Concrete values for the examples. \<open>percent_encode\<close> escapes every byte that is not
  a letter, a digit or one of \<open>- _ . ! ~ * ' ( )\<close> as \<open>%XX\<close>, which is what
  \<open>encodeURIComponent\<close> does to a well-formed string; like \<open>encodeURIComponent\<close> it fails
  on a string that holds a surrogate: the byte \<open>ED\<close> followed by a byte from \<open>A0\<close> to \<open>BF\<close>,
  which no well-formed string has. \<open>lone_surrogate\<close> is the string
  that the JSON escape of the single code unit \<open>DFFF\<close> gives. \<open>sample_parse\<close> stands for \<open>JSON.parse\<close> on the few texts
  the examples use; like \<open>JSON.parse\<close> it rejects the empty text and the text \<open>busy\<close>.
\<close>

definition hex_digit :: "nat \<Rightarrow> char" where
  "hex_digit d = ''0123456789ABCDEF'' ! d"

definition unreserved :: "char \<Rightarrow> bool" where
  "unreserved ch =
     (ch \<in> set ''ABCDEFGHIJKLMNOPQRSTUVWXYZabcdefghijklmnopqrstuvwxyz0123456789-_.!~*()''
      \<or> ch = CHR 0x27)"

fun has_surrogate :: "string \<Rightarrow> bool" where
  "has_surrogate (a # b # s) =
     ((of_char a = (0xED :: nat) \<and> (0xA0 :: nat) \<le> of_char b \<and> of_char b \<le> (0xBF :: nat))
      \<or> has_surrogate (b # s))"
| "has_surrogate s = False"

definition percent_encode :: "string \<Rightarrow> string option" where
  "percent_encode s =
     (if has_surrogate s then None
      else Some (concat (map (\<lambda>ch. if unreserved ch then [ch]
                         else [CHR ''%'', hex_digit (of_char ch div 16), hex_digit (of_char ch mod 16)]) s)))"


definition sample_parse :: "string \<Rightarrow> json option" where
  "sample_parse s =
     (if s = ''[7]'' then Some (JArr [JNum 7])
      else if s = ''null'' then Some JNull
      else if s = ''{}'' then Some (JObj [])
      else None)"

definition sample_stringify :: "json \<Rightarrow> string" where
  "sample_stringify j =
     (case j of
        JObj [(k1, JStr v1), (k2, JStr v2)] \<Rightarrow>
          ''{'' @ k1 @ '':'' @ v1 @ '','' @ k2 @ '':'' @ v2 @ ''}''
      | _ \<Rightarrow> [])"

text \<open>The network of the specification's example: every call to \<open>a.test\<close> is answered
  with status 500, the POST to \<open>b.test\<close> with status 201 and a JSON body, and nothing
  else answers.\<close>

definition sample_fetch :: "fetch_call list \<Rightarrow> fetch_call \<Rightarrow> fetch_result" where
  "sample_fetch hist c =
     (if take 14 (call_url c) = ''https://a.test'' then Resolved 500 (Some ''busy'')
      else if call_url c = ''https://b.test'' \<and> call_method c = POST then Resolved 201 (Some ''[7]'')
      else Rejected)"

definition sample_platform :: platform where
  "sample_platform =
     \<lparr>JSON_parse = sample_parse, JSON_stringify = sample_stringify,
      encodeURIComponent = percent_encode, fetch = sample_fetch\<rparr>"

text \<open>A network on which every response arrives with status 200 and then breaks off
  (or runs into the deadline) while its body is read.\<close>

definition stalling_platform :: platform where
  "stalling_platform = sample_platform\<lparr>fetch := (\<lambda>hist c. Resolved 200 None)\<rparr>"

text \<open>A network that answers every call with status 204 and an empty body.\<close>

definition no_content_platform :: platform where
  "no_content_platform = sample_platform\<lparr>fetch := (\<lambda>hist c. Resolved 204 (Some []))\<rparr>"

text \<open>A network on which no call is answered.\<close>

definition dead_platform :: platform where
  "dead_platform = sample_platform\<lparr>fetch := (\<lambda>hist c. Rejected)\<rparr>"

definition list_config :: config where
  "list_config =
     \<lparr>TIMEOUT_MS = 8000, UPSTREAM_URLS = [''https://a.test'', ''https://b.test''],
      UPSTREAM_BASE = [], UPSTREAM_HEADERS = [(''Content-Type'', ''application/json'')],
      CORS_ORIGIN = []\<rparr>"


definition bare_config :: config where
  "bare_config = list_config\<lparr>UPSTREAM_URLS := []\<rparr>"

definition join_request :: "string \<Rightarrow> string \<Rightarrow> request" where
  "join_request c n = \<lparr>req_method = ''POST'', req_body = Some \<lparr>code = Some c, name = Some n\<rparr>\<rparr>"

text \<open>A network that answers every call with status 500 and the text \<open>busy\<close>.\<close>

definition refusing_platform :: platform where
  "refusing_platform = sample_platform\<lparr>fetch := (\<lambda>hist c. Resolved 500 (Some ''busy''))\<rparr>"

text \<open>The four attempts for the code \<open>a b\<close> and the name \<open>Bob\<close> under \<open>list_config\<close>.\<close>

definition post_a :: attempt where
  "post_a = \<lparr>info = ''POST https://a.test'', meth = POST, url = ''https://a.test'',
             body = Some (join_payload ''a b'' ''Bob'')\<rparr>"

definition post_b :: attempt where
  "post_b = \<lparr>info = ''POST https://b.test'', meth = POST, url = ''https://b.test'',
             body = Some (join_payload ''a b'' ''Bob'')\<rparr>"

definition get_b :: attempt where
  "get_b = \<lparr>info = ''GET https://b.test?code=a%20b&name=Bob'', meth = GET,
            url = ''https://b.test?code=a%20b&name=Bob'', body = None\<rparr>"

definition get_a :: attempt where
  "get_a = \<lparr>info = ''GET https://a.test?code=a%20b&name=Bob'', meth = GET,
            url = ''https://a.test?code=a%20b&name=Bob'', body = None\<rparr>"

definition sample_attempts :: "attempt list" where
  "sample_attempts = [post_a, get_a, post_b, get_b]"

section \<open>Properties\<close>

subsection \<open>The attempt list\<close>











subsection \<open>The loop\<close>

lemma run_attempt_via: "run_attempt P cfg hist a = Inr r \<Longrightarrow> via r = info a"
  by (auto simp: run_attempt_def withTimeout_def attempt_body_def Let_def
      split: fetch_result.splits if_splits)

lemma nth_result_0 [simp]: "nth_result P cfg hist (a # as) 0 = run_attempt P cfg hist a"
  by (simp add: nth_result_def)

lemma nth_result_Suc [simp]:
  "nth_result P cfg hist (a # as) (Suc i) = nth_result P cfg (hist @ [call_of P cfg a]) as i"
  by (simp add: nth_result_def)

text \<open>One turn of the loop, by the result of the attempt.\<close>

lemma loop_step_ok:
  "run_attempt P cfg hist a = Inr r \<Longrightarrow> ok r \<Longrightarrow>
     attempt_loop P cfg res (a # as) le hist =
       (Inl (send res 200 (JoinedReply (status r) (via r) (data r))), hist @ [call_of P cfg a])"
  by simp

lemma loop_step_rejected_status:
  "run_attempt P cfg hist a = Inr r \<Longrightarrow> \<not> ok r \<Longrightarrow>
     attempt_loop P cfg res (a # as) le hist =
       attempt_loop P cfg res as
         \<lparr>le_status = status r, le_message = ''Upstream error via '' @ via r,
          le_data = Some (data r)\<rparr> (hist @ [call_of P cfg a])"
  by simp

lemma loop_step_thrown:
  "run_attempt P cfg hist a = Inl u \<Longrightarrow>
     attempt_loop P cfg res (a # as) le hist =
       attempt_loop P cfg res as
         \<lparr>le_status = 502, le_message = ''Fetch failed (timeout/CORS/host) via '' @ info a,
          le_data = None\<rparr> (hist @ [call_of P cfg a])"
  by simp

lemma loop_step_failed:
  assumes "\<not> succeeded (run_attempt P cfg hist a)"
  shows "attempt_loop P cfg res (a # as) le hist =
           attempt_loop P cfg res as (failure_of a (run_attempt P cfg hist a)) (hist @ [call_of P cfg a])"
proof (cases "run_attempt P cfg hist a")
  case (Inl u)
  then show ?thesis by (simp add: failure_of_def)
next
  case (Inr r)
  with assms have "\<not> ok r" by (simp add: succeeded_def)
  with Inr run_attempt_via [OF Inr] show ?thesis by (simp add: failure_of_def)
qed

lemma loop_first_success:
  "k < length as \<Longrightarrow> nth_result P cfg hist as k = Inr r \<Longrightarrow> ok r \<Longrightarrow>
   (\<forall>i<k. \<not> succeeded (nth_result P cfg hist as i)) \<Longrightarrow>
     attempt_loop P cfg res as le hist =
       (Inl (send res 200 (JoinedReply (status r) (info (as ! k)) (data r))),
        hist @ map (call_of P cfg) (take (Suc k) as))"
proof (induction as arbitrary: k le hist)
  case Nil
  then show ?case by simp
next
  case (Cons a as)
  show ?case
  proof (cases k)
    case 0
    with Cons.prems have r: "run_attempt P cfg hist a = Inr r" by simp
    from loop_step_ok [OF r \<open>ok r\<close>] run_attempt_via [OF r] 0 show ?thesis by simp
  next
    case (Suc j)
    from Cons.prems(4) Suc have "\<not> succeeded (nth_result P cfg hist (a # as) 0)" by blast
    then have f: "\<not> succeeded (run_attempt P cfg hist a)" by simp
    have j: "j < length as" using Cons.prems(1) Suc by simp
    have rj: "nth_result P cfg (hist @ [call_of P cfg a]) as j = Inr r"
      using Cons.prems(2) Suc by simp
    have before: "\<forall>i<j. \<not> succeeded (nth_result P cfg (hist @ [call_of P cfg a]) as i)"
    proof (intro allI impI)
      fix i assume "i < j"
      then have "Suc i < k" using Suc by simp
      with Cons.prems(4) have "\<not> succeeded (nth_result P cfg hist (a # as) (Suc i))" by blast
      then show "\<not> succeeded (nth_result P cfg (hist @ [call_of P cfg a]) as i)" by simp
    qed
    from Cons.IH [OF j rj \<open>ok r\<close> before] loop_step_failed [OF f] Suc
    show ?thesis by simp
  qed
qed

lemma loop_all_failed:
  "(\<forall>i<length as. \<not> succeeded (nth_result P cfg hist as i)) \<Longrightarrow>
     attempt_loop P cfg res as le hist =
       (Inr (if as = [] then le
             else failure_of (last as) (nth_result P cfg hist as (length as - 1))),
        hist @ map (call_of P cfg) as)"
proof (induction as arbitrary: le hist)
  case Nil
  then show ?case by simp
next
  case (Cons a as)
  from Cons.prems have "\<not> succeeded (nth_result P cfg hist (a # as) 0)" by blast
  then have f: "\<not> succeeded (run_attempt P cfg hist a)" by simp
  have rest: "\<forall>i<length as. \<not> succeeded (nth_result P cfg (hist @ [call_of P cfg a]) as i)"
  proof (intro allI impI)
    fix i assume "i < length as"
    then have "Suc i < length (a # as)" by simp
    with Cons.prems have "\<not> succeeded (nth_result P cfg hist (a # as) (Suc i))" by blast
    then show "\<not> succeeded (nth_result P cfg (hist @ [call_of P cfg a]) as i)" by simp
  qed
  show ?case
  proof (cases as)
    case Nil
    with loop_step_failed [OF f] show ?thesis by simp
  next
    case (Cons b bs)
    then have "nth_result P cfg hist (a # as) (length (a # as) - 1) =
               nth_result P cfg (hist @ [call_of P cfg a]) as (length as - 1)"
      by simp
    with Cons.IH [OF rest] loop_step_failed [OF f] Cons show ?thesis by simp
  qed
qed

lemma loop_message_not_initial:
  "as \<noteq> [] \<or> le_message le \<noteq> ''No attempts made.'' \<Longrightarrow>
   attempt_loop P cfg res as le hist = (Inr le', h) \<Longrightarrow>
     le_message le' \<noteq> ''No attempts made.''"
proof (induction as arbitrary: le hist)
  case Nil
  then show ?case by simp
next
  case (Cons a as)
  show ?case
  proof (cases "run_attempt P cfg hist a")
    case (Inl u)
    with Cons.prems(2) have
      "attempt_loop P cfg res as
         \<lparr>le_status = 502, le_message = ''Fetch failed (timeout/CORS/host) via '' @ info a,
          le_data = None\<rparr> (hist @ [call_of P cfg a]) = (Inr le', h)"
      by simp
    from Cons.IH [OF _ this] show ?thesis by simp
  next
    case (Inr r)
    show ?thesis
    proof (cases "ok r")
      case True
      with Inr Cons.prems(2) show ?thesis by simp
    next
      case False
      with Inr Cons.prems(2) have
        "attempt_loop P cfg res as
           \<lparr>le_status = status r, le_message = ''Upstream error via '' @ via r,
            le_data = Some (data r)\<rparr> (hist @ [call_of P cfg a]) = (Inr le', h)"
        by simp
      from Cons.IH [OF _ this] show ?thesis by simp
    qed
  qed
qed

lemma loop_calls_extend:
  "\<exists>h'. snd (attempt_loop P cfg res as le hist) = hist @ h' \<and> (as \<noteq> [] \<longrightarrow> h' \<noteq> [])"
proof (induction as arbitrary: le hist)
  case Nil
  then show ?case by simp
next
  case (Cons a as)
  show ?case
  proof (cases "succeeded (run_attempt P cfg hist a)")
    case True
    then obtain r where "run_attempt P cfg hist a = Inr r" "ok r"
      by (auto simp: succeeded_def split: sum.splits)
    from loop_step_ok [OF this] show ?thesis by simp
  next
    case False
    from Cons.IH [of "failure_of a (run_attempt P cfg hist a)" "hist @ [call_of P cfg a]"]
      loop_step_failed [OF False]
    show ?thesis by auto
  qed
qed

lemma loop_early_return:
  "attempt_loop P cfg res as le hist = (Inl r, h) \<Longrightarrow>
     \<exists>st v d. r = send res 200 (JoinedReply st v d)"
proof (induction as arbitrary: le hist)
  case Nil
  then show ?case by simp
next
  case (Cons a as)
  show ?case
  proof (cases "succeeded (run_attempt P cfg hist a)")
    case True
    then obtain r' where "run_attempt P cfg hist a = Inr r'" "ok r'"
      by (auto simp: succeeded_def split: sum.splits)
    from loop_step_ok [OF this] Cons.prems show ?thesis by auto
  next
    case False
    from loop_step_failed [OF False] Cons.prems Cons.IH show ?thesis by auto
  qed
qed

lemma handler_runs_candidates:
  "candidates_of P cfg req = Some (Inr as) \<Longrightarrow>
     handler P cfg req =
       (Inr (fst (dispatch P cfg (fresh_response cfg) as)),
        snd (dispatch P cfg (fresh_response cfg) as))"
  by (auto simp: candidates_of_def handler_def Let_def split: if_splits prod.splits)

lemma build_attempts_empty:
  "build_attempts P cfg c n = Inr [] \<Longrightarrow> UPSTREAM_URLS cfg = [] \<and> UPSTREAM_BASE cfg = []"
  by (cases "UPSTREAM_URLS cfg")
     (auto simp: build_attempts_def defaultCandidates_def post_then_get_def Let_def
        split: sum.splits if_splits)

lemma run_attempt_resolved:
  "fetch P hist (call_of P cfg a) = Resolved st t \<Longrightarrow>
     run_attempt P cfg hist a =
       Inr \<lparr>ok = response_ok st, status = st, data = parse_body P (read_text t), via = info a\<rparr>"
  by (simp add: run_attempt_def withTimeout_def attempt_body_def call_of_def Let_def)

lemma run_attempt_rejected:
  "fetch P hist (call_of P cfg a) = Rejected \<Longrightarrow> run_attempt P cfg hist a = Inl ()"
  by (simp add: run_attempt_def withTimeout_def attempt_body_def call_of_def)

text \<open>
  Claim C1. In a sequence whose attempt at position \<open>k\<close> succeeds while every attempt
  before it fails, the loop returns from inside with status 200 and the reply
  \<open>{ joined: true, upstreamStatus, via, data }\<close> holding the status and the body of that
  outcome and the label of the attempt at \<open>k\<close>. The calls made are those of the attempts
  at positions \<open>0\<close> to \<open>k\<close>, in order: no attempt after \<open>k\<close> is run.
\<close>

theorem first_success_wins:
  assumes "k < length as"
    and "nth_result P cfg [] as k = Inr r" and "ok r"
    and "\<forall>i<k. \<not> succeeded (nth_result P cfg [] as i)"
  shows "attempt_loop P cfg res as le [] =
           (Inl (send res 200 (JoinedReply (status r) (info (as ! k)) (data r))),
            map (call_of P cfg) (take (Suc k) as))
       \<and> dispatch P cfg res as =
           (send res 200 (JoinedReply (status r) (info (as ! k)) (data r)),
            map (call_of P cfg) (take (Suc k) as))"
  using loop_first_success [OF assms, of res] by (simp add: dispatch_def)

theorem first_success_wins_witness:
  "2 < length sample_attempts
 \<and> nth_result sample_platform list_config [] sample_attempts 2 =
      Inr \<lparr>ok = True, status = 201, data = JArr [JNum 7], via = ''POST https://b.test''\<rparr>
 \<and> \<not> succeeded (nth_result sample_platform list_config [] sample_attempts 0)
 \<and> \<not> succeeded (nth_result sample_platform list_config [] sample_attempts (Suc 0))
 \<and> dispatch sample_platform list_config (fresh_response list_config) sample_attempts =
      (send (fresh_response list_config) 200
         (JoinedReply 201 ''POST https://b.test'' (JArr [JNum 7])),
       map (call_of sample_platform list_config) (take 3 sample_attempts))
 \<and> map call_url (snd (dispatch sample_platform list_config (fresh_response list_config) sample_attempts)) =
      [''https://a.test'', ''https://a.test?code=a%20b&name=Bob'', ''https://b.test'']"
proof -
  let ?r = "\<lparr>ok = True, status = 201, data = JArr [JNum 7], via = ''POST https://b.test''\<rparr>"
  have h1: "2 < length sample_attempts" by code_simp
  have h2: "nth_result sample_platform list_config [] sample_attempts 2 = Inr ?r" by code_simp
  have h3: "ok ?r" by simp
  have f0: "\<not> succeeded (nth_result sample_platform list_config [] sample_attempts 0)"
    by code_simp
  have f1: "\<not> succeeded (nth_result sample_platform list_config [] sample_attempts (Suc 0))"
    by code_simp
  have h4: "\<forall>i<2. \<not> succeeded (nth_result sample_platform list_config [] sample_attempts i)"
    using f0 f1 by (auto simp: less_2_cases_iff)
  have lbl: "info (sample_attempts ! 2) = ''POST https://b.test''" by code_simp
  have urls: "map call_url (map (call_of sample_platform list_config) (take 3 sample_attempts)) =
      [''https://a.test'', ''https://a.test?code=a%20b&name=Bob'', ''https://b.test'']"
    by code_simp
  have three: "Suc 2 = 3" by simp
  from first_success_wins [OF h1 h2 h3 h4, of "fresh_response list_config" no_attempts]
  have "dispatch sample_platform list_config (fresh_response list_config) sample_attempts =
      (send (fresh_response list_config) 200
         (JoinedReply 201 ''POST https://b.test'' (JArr [JNum 7])),
       map (call_of sample_platform list_config) (take 3 sample_attempts))"
    by (simp only: lbl three outcome.simps)
  with h1 h2 f0 f1 urls show ?thesis by simp
qed

text \<open>
  Claim C4. When every attempt of a non-empty sequence fails, all of them are run and the
  reply is \<open>{ joined: false, error, upstreamData }\<close>, built from the last attempt alone.
  If the last attempt received a response, the status sent is the status of that response,
  the message is \<open>Upstream error via\<close> with the label of the last attempt, and
  \<open>upstreamData\<close> is the body of that response. If the last attempt threw, the status is 502,
  the message is \<open>Fetch failed (timeout/CORS/host) via\<close> with the label of the last attempt,
  and \<open>upstreamData\<close> is null. An HTTP status is a three-digit number, so the status of a
  received response is taken to be positive.
\<close>

theorem exhaustion_reports_last:
  assumes "as \<noteq> []"
    and "\<forall>i<length as. \<not> succeeded (nth_result P cfg [] as i)"
    and "\<forall>r. nth_result P cfg [] as (length as - 1) = Inr r \<longrightarrow> 0 < status r"
  shows "dispatch P cfg res as =
           (case nth_result P cfg [] as (length as - 1) of
              Inr r \<Rightarrow>
                send res (status r)
                  (FailedReply (''Upstream error via '' @ info (last as)) (data r))
            | Inl _ \<Rightarrow>
                send res 502
                  (FailedReply (''Fetch failed (timeout/CORS/host) via '' @ info (last as)) JNull),
            map (call_of P cfg) as)"
proof (cases "nth_result P cfg [] as (length as - 1)")
  case (Inl u)
  with loop_all_failed [OF assms(2), of res no_attempts] assms(1) show ?thesis
    by (simp add: dispatch_def give_up_def failure_of_def status_or_502_def or_null_def)
next
  case (Inr r)
  with assms(3) have "0 < status r" by simp
  with Inr loop_all_failed [OF assms(2), of res no_attempts] assms(1) show ?thesis
    by (simp add: dispatch_def give_up_def failure_of_def status_or_502_def or_null_def)
qed

theorem exhaustion_reports_last_witness:
  "sample_attempts \<noteq> []
 \<and> length sample_attempts = 4
 \<and> \<not> succeeded (nth_result refusing_platform list_config [] sample_attempts 0)
 \<and> \<not> succeeded (nth_result refusing_platform list_config [] sample_attempts 1)
 \<and> \<not> succeeded (nth_result refusing_platform list_config [] sample_attempts 2)
 \<and> nth_result refusing_platform list_config [] sample_attempts 3 =
      Inr \<lparr>ok = False, status = 500, data = JStr ''busy'',
           via = ''GET https://b.test?code=a%20b&name=Bob''\<rparr>
 \<and> fst (dispatch refusing_platform list_config (fresh_response list_config) sample_attempts) =
      send (fresh_response list_config) 500
        (FailedReply ''Upstream error via GET https://b.test?code=a%20b&name=Bob'' (JStr ''busy''))
 \<and> length (snd (dispatch refusing_platform list_config (fresh_response list_config) sample_attempts)) = 4
 \<and> nth_result sample_platform list_config [] [post_a, get_b] 0 =
      Inr \<lparr>ok = False, status = 500, data = JStr ''busy'', via = ''POST https://a.test''\<rparr>
 \<and> nth_result sample_platform list_config [] [post_a, get_b] 1 = Inl ()
 \<and> dispatch sample_platform list_config (fresh_response list_config) [post_a, get_b] =
      (send (fresh_response list_config) 502
        (FailedReply ''Fetch failed (timeout/CORS/host) via GET https://b.test?code=a%20b&name=Bob'' JNull),
       [call_of sample_platform list_config post_a, call_of sample_platform list_config get_b])"
proof -
  have ne: "sample_attempts \<noteq> []" by code_simp
  have len: "length sample_attempts = 4" by code_simp
  have lst: "info (last sample_attempts) = ''GET https://b.test?code=a%20b&name=Bob''" by code_simp
  have l3: "info (sample_attempts ! 3) = ''GET https://b.test?code=a%20b&name=Bob''" by code_simp
  have r: "nth_result refusing_platform list_config [] sample_attempts i =
             Inr \<lparr>ok = False, status = 500, data = JStr ''busy'', via = info (sample_attempts ! i)\<rparr>" for i
    by (simp add: nth_result_def run_attempt_def withTimeout_def attempt_body_def Let_def
        refusing_platform_def sample_platform_def response_ok_def parse_body_def read_text_def
        sample_parse_def)
  have a1: "\<forall>i<length sample_attempts.
       \<not> succeeded (nth_result refusing_platform list_config [] sample_attempts i)"
    by (simp add: r succeeded_def)
  have a2: "\<forall>r. nth_result refusing_platform list_config [] sample_attempts (length sample_attempts - 1) = Inr r
        \<longrightarrow> 0 < status r"
    by (auto simp: r)
  have ne': "[post_a, get_b] \<noteq> []" by simp
  have r0: "nth_result sample_platform list_config [] [post_a, get_b] 0 =
      Inr \<lparr>ok = False, status = 500, data = JStr ''busy'', via = ''POST https://a.test''\<rparr>"
    by code_simp
  have r1: "nth_result sample_platform list_config [] [post_a, get_b] 1 = Inl ()"
    by code_simp
  have r1': "nth_result sample_platform list_config [] [post_a, get_b] (Suc 0) = Inl ()"
    using r1 by simp
  have b1: "\<forall>i<length [post_a, get_b].
       \<not> succeeded (nth_result sample_platform list_config [] [post_a, get_b] i)"
    using r0 r1' by (auto simp: less_Suc_eq succeeded_def)
  have b2: "\<forall>r. nth_result sample_platform list_config [] [post_a, get_b] (length [post_a, get_b] - 1) = Inr r
        \<longrightarrow> 0 < status r"
    using r1' by simp
  have lst': "info (last [post_a, get_b]) = ''GET https://b.test?code=a%20b&name=Bob''"
    by (simp add: get_b_def)
  have A: "fst (dispatch refusing_platform list_config (fresh_response list_config) sample_attempts) =
      send (fresh_response list_config) 500
        (FailedReply ''Upstream error via GET https://b.test?code=a%20b&name=Bob'' (JStr ''busy''))
    \<and> length (snd (dispatch refusing_platform list_config (fresh_response list_config) sample_attempts)) = 4"
    using exhaustion_reports_last [OF ne a1 a2, of "fresh_response list_config"] len lst l3
    by (simp add: r)
  have B: "dispatch sample_platform list_config (fresh_response list_config) [post_a, get_b] =
      (send (fresh_response list_config) 502
        (FailedReply ''Fetch failed (timeout/CORS/host) via GET https://b.test?code=a%20b&name=Bob'' JNull),
       [call_of sample_platform list_config post_a, call_of sample_platform list_config get_b])"
    using exhaustion_reports_last [OF ne' b1 b2, of "fresh_response list_config"] r1' lst'
    by simp
  from ne len l3 A B r0 r1 show ?thesis by (simp add: r succeeded_def)
qed

text \<open>
  Claim C5, amended. For a response that arrived, the body of the outcome is the empty
  object \<open>{}\<close> when reading the text fails or the text is empty; for a non-empty text it
  is the value \<open>JSON.parse\<close> gives, and the text itself when \<open>JSON.parse\<close> throws. When the
  status is a success status, this value is what the reply carries in \<open>data\<close>.
\<close>

theorem body_is_parsed_or_raw_or_empty_object:
  assumes "fetch P hist (call_of P cfg a) = Resolved st t"
  shows "run_attempt P cfg hist a =
           Inr \<lparr>ok = response_ok st, status = st,
                data = (case t of
                          None \<Rightarrow> JObj []
                        | Some s \<Rightarrow>
                            if s = [] then JObj []
                            else (case JSON_parse P s of Some v \<Rightarrow> v | None \<Rightarrow> JStr s)),
                via = info a\<rparr>
       \<and> (response_ok st \<longrightarrow>
            attempt_loop P cfg res (a # as) le hist =
              (Inl (send res 200
                 (JoinedReply st (info a)
                    (case t of
                       None \<Rightarrow> JObj []
                     | Some s \<Rightarrow>
                         if s = [] then JObj []
                         else (case JSON_parse P s of Some v \<Rightarrow> v | None \<Rightarrow> JStr s)))),
               hist @ [call_of P cfg a]))"
  using run_attempt_resolved [OF assms]
  by (simp add: parse_body_def read_text_def split: option.splits)

theorem body_is_parsed_or_raw_or_empty_object_witness:
  "fetch sample_platform [] (call_of sample_platform list_config post_b) = Resolved 201 (Some ''[7]'')
 \<and> response_ok 201
 \<and> run_attempt sample_platform list_config [] post_b =
      Inr \<lparr>ok = True, status = 201, data = JArr [JNum 7], via = ''POST https://b.test''\<rparr>
 \<and> attempt_loop sample_platform list_config (fresh_response list_config) [post_b] no_attempts [] =
      (Inl (send (fresh_response list_config) 200
              (JoinedReply 201 ''POST https://b.test'' (JArr [JNum 7]))),
       [call_of sample_platform list_config post_b])"
proof -
  have f: "fetch sample_platform [] (call_of sample_platform list_config post_b) =
             Resolved 201 (Some ''[7]'')"
    by code_simp
  have k: "response_ok 201" by (simp add: response_ok_def)
  have p: "JSON_parse sample_platform ''[7]'' = Some (JArr [JNum 7])"
    by (simp add: sample_platform_def sample_parse_def)
  have i: "info post_b = ''POST https://b.test''" by (simp add: post_b_def)
  from body_is_parsed_or_raw_or_empty_object
         [OF f, of "fresh_response list_config" "[]" no_attempts] f k
  show ?thesis by (simp add: p i)
qed

text \<open>Claim C5 as stated fails on a response with status 204 and an empty text: the empty
  text is not JSON, and the body of the outcome is the empty object, not the text.\<close>

theorem empty_text_is_not_kept_counterexample:
  "fetch no_content_platform [] (call_of no_content_platform list_config post_a) =
     Resolved 204 (Some [])
 \<and> JSON_parse no_content_platform [] = None
 \<and> run_attempt no_content_platform list_config [] post_a =
     Inr \<lparr>ok = True, status = 204, data = JObj [], via = ''POST https://a.test''\<rparr>
 \<and> JObj [] \<noteq> JStr []"
  by (simp add: no_content_platform_def sample_platform_def sample_parse_def run_attempt_def
      withTimeout_def attempt_body_def Let_def response_ok_def parse_body_def read_text_def
      post_a_def)

text \<open>
  Claim C6. For a response that arrived, the function of the attempt returns (it does not
  throw) the outcome whose \<open>ok\<close> holds exactly when the status is between 200 and 299,
  with that status and the parsed body. An attempt whose call is rejected throws instead,
  and the loop ends differently on the two: an upstream rejection cannot be taken for an
  unreachable upstream.
\<close>

theorem upstream_status_decides_success:
  assumes "fetch P hist (call_of P cfg a) = Resolved st t"
  shows "run_attempt P cfg hist a =
           Inr \<lparr>ok = (200 \<le> st \<and> st \<le> 299), status = st,
                data = parse_body P (read_text t), via = info a\<rparr>
       \<and> (fetch P' hist' (call_of P' cfg' a') = Rejected \<longrightarrow>
            run_attempt P' cfg' hist' a' = Inl ()
          \<and> fst (attempt_loop P cfg res [a] le hist) \<noteq> fst (attempt_loop P' cfg' res' [a'] le' hist'))"
  using run_attempt_resolved [OF assms]
  by (auto simp: response_ok_def Let_def dest!: run_attempt_rejected split: if_splits)

theorem upstream_status_decides_success_witness:
  "fetch sample_platform [] (call_of sample_platform list_config post_a) = Resolved 500 (Some ''busy'')
 \<and> run_attempt sample_platform list_config [] post_a =
      Inr \<lparr>ok = False, status = 500, data = JStr ''busy'', via = ''POST https://a.test''\<rparr>
 \<and> fetch dead_platform [] (call_of dead_platform list_config post_a) = Rejected
 \<and> run_attempt dead_platform list_config [] post_a = Inl ()
 \<and> fst (attempt_loop sample_platform list_config (fresh_response list_config) [post_a] no_attempts [])
      \<noteq> fst (attempt_loop dead_platform list_config (fresh_response list_config) [post_a] no_attempts [])"
proof -
  have f: "fetch sample_platform [] (call_of sample_platform list_config post_a) =
             Resolved 500 (Some ''busy'')"
    by code_simp
  have g: "fetch dead_platform [] (call_of dead_platform list_config post_a) = Rejected"
    by (simp add: dead_platform_def)
  have p: "parse_body sample_platform (read_text (Some ''busy'')) = JStr ''busy''"
    by (simp add: parse_body_def read_text_def sample_platform_def sample_parse_def)
  have i: "info post_a = ''POST https://a.test''" by (simp add: post_a_def)
  from upstream_status_decides_success
         [OF f, of dead_platform "[]" list_config post_a "fresh_response list_config"
            no_attempts "fresh_response list_config" no_attempts] f g
  show ?thesis by (simp add: p i)
qed

lemma rejected_fetch_advances:
  "(fetch P hist (call_of P cfg a) = Rejected \<longrightarrow>
      attempt_loop P cfg res (a # as) le hist =
        attempt_loop P cfg res as
          \<lparr>le_status = 502, le_message = ''Fetch failed (timeout/CORS/host) via '' @ info a,
           le_data = None\<rparr> (hist @ [call_of P cfg a]))
 \<and> (fetch P hist (call_of P cfg a) = Resolved st t \<and> \<not> response_ok st \<longrightarrow>
      attempt_loop P cfg res (a # as) le hist =
        attempt_loop P cfg res as
          \<lparr>le_status = st, le_message = ''Upstream error via '' @ info a,
           le_data = Some (parse_body P (read_text t))\<rparr> (hist @ [call_of P cfg a]))"
  by (auto dest!: run_attempt_rejected run_attempt_resolved)

text \<open>
  Claim C7 says that an attempt which runs into the deadline, or fails at the network
  level, is recorded as the last failure and that the loop goes on with the next attempt.
  The handler does so when the call is rejected before a response arrives: on a network
  that answers no call, all four attempts of the request are run and the reply is the
  failure of the last one. It does not when the deadline passes, or the connection breaks,
  while the body of a response with status 200 is read: the first attempt is answered
  \<open>joined: true\<close> with the empty object as \<open>data\<close>, and the three other attempts are
  not run.
\<close>

theorem deadline_in_body_read_answers_joined:
  "length sample_attempts = 4
 \<and> candidates_of dead_platform list_config (join_request ''a b'' ''Bob'') = Some (Inr sample_attempts)
 \<and> fetch dead_platform [] (call_of dead_platform list_config post_a) = Rejected
 \<and> handler dead_platform list_config (join_request ''a b'' ''Bob'') =
      (Inr (send (fresh_response list_config) 502
              (FailedReply ''Fetch failed (timeout/CORS/host) via GET https://b.test?code=a%20b&name=Bob''
                 JNull)),
       map (call_of dead_platform list_config) sample_attempts)
 \<and> candidates_of stalling_platform list_config (join_request ''a b'' ''Bob'') = Some (Inr sample_attempts)
 \<and> fetch stalling_platform [] (call_of stalling_platform list_config post_a) = Resolved 200 None
 \<and> handler stalling_platform list_config (join_request ''a b'' ''Bob'') =
      (Inr (send (fresh_response list_config) 200 (JoinedReply 200 ''POST https://a.test'' (JObj []))),
       [call_of stalling_platform list_config post_a])"
  by code_simp

text \<open>
  Claim C8, amended. For a request without a body, or whose \<open>code\<close> or \<open>name\<close> is absent
  or the empty string, no attempt is built and no call to the network is made; when its
  method is POST, the response is status 400 with \<open>{ error: "Missing code or name" }\<close>.
\<close>

theorem missing_field_is_rejected:
  assumes "req_body req = None
         \<or> (\<exists>b. req_body req = Some b
               \<and> (code b = None \<or> code b = Some [] \<or> name b = None \<or> name b = Some []))"
  shows "candidates_of P cfg req = None
       \<and> snd (handler P cfg req) = []
       \<and> (req_method req = ''POST'' \<longrightarrow>
            fst (handler P cfg req) =
              Inr (send (fresh_response cfg) 400 (ErrorReply ''Missing code or name'')))"
  using assms by (auto simp: handler_def candidates_of_def Let_def falsy_def)

theorem missing_field_is_rejected_witness:
  "req_body (join_request [] ''Bob'') = Some \<lparr>code = Some [], name = Some ''Bob''\<rparr>
 \<and> req_method (join_request [] ''Bob'') = ''POST''
 \<and> candidates_of sample_platform list_config (join_request [] ''Bob'') = None
 \<and> handler sample_platform list_config (join_request [] ''Bob'') =
      (Inr (send (fresh_response list_config) 400 (ErrorReply ''Missing code or name'')), [])"
proof -
  have b: "req_body (join_request [] ''Bob'') = Some \<lparr>code = Some [], name = Some ''Bob''\<rparr>"
    by (simp add: join_request_def)
  have m: "req_method (join_request [] ''Bob'') = ''POST''" by (simp add: join_request_def)
  have h: "req_body (join_request [] ''Bob'') = None
         \<or> (\<exists>b. req_body (join_request [] ''Bob'') = Some b
               \<and> (code b = None \<or> code b = Some [] \<or> name b = None \<or> name b = Some []))"
    by (simp add: b)
  from missing_field_is_rejected [OF h, of sample_platform list_config] b m
  show ?thesis by (simp add: prod_eq_iff)
qed

text \<open>Claim C8 as stated fails on a pre-flight request, which carries no fields and is
  answered with status 204.\<close>

theorem preflight_without_fields_counterexample:
  "req_body \<lparr>req_method = ''OPTIONS'', req_body = None\<rparr> = None
 \<and> handler sample_platform list_config \<lparr>req_method = ''OPTIONS'', req_body = None\<rparr> =
      (Inr (send (fresh_response list_config) 204 NoReply), [])
 \<and> res_status (send (fresh_response list_config) 204 NoReply) = 204
 \<and> res_status (send (fresh_response list_config) 204 NoReply) \<noteq> 400"
  by (simp add: handler_def Let_def send_def)

text \<open>
  Claim C9. For a request whose list of attempts is empty, which is the case only with
  neither a list of targets nor a base configured, the handler answers status 500 with
  \<open>{ joined: false, error: "No attempts made.", upstreamData: null }\<close> and makes no
  call. Exhaustion differs from it: over a non-empty list of attempts at least one call is
  made and the error message is never \<open>No attempts made.\<close>
\<close>

theorem no_candidates_is_terminal:
  assumes "candidates_of P cfg req = Some (Inr [])"
  shows "handler P cfg req =
           (Inr (send (fresh_response cfg) 500 (FailedReply ''No attempts made.'' JNull)), [])
       \<and> UPSTREAM_URLS cfg = [] \<and> UPSTREAM_BASE cfg = []
       \<and> (\<forall>P' cfg' res as. as \<noteq> [] \<longrightarrow>
            snd (dispatch P' cfg' res as) \<noteq> []
          \<and> (\<forall>d. res_body (fst (dispatch P' cfg' res as)) \<noteq> FailedReply ''No attempts made.'' d))"
proof -
  have h: "handler P cfg req =
           (Inr (send (fresh_response cfg) 500 (FailedReply ''No attempts made.'' JNull)), [])"
    using handler_runs_candidates [OF assms]
    by (simp add: dispatch_def give_up_def no_attempts_def status_or_502_def or_null_def)
  from assms obtain c n where "build_attempts P cfg c n = Inr []"
    by (auto simp: candidates_of_def Let_def split: if_splits)
  then have u: "UPSTREAM_URLS cfg = [] \<and> UPSTREAM_BASE cfg = []"
    by (rule build_attempts_empty)
  have d: "snd (dispatch P' cfg' res as) \<noteq> []
          \<and> (\<forall>d. res_body (fst (dispatch P' cfg' res as)) \<noteq> FailedReply ''No attempts made.'' d)"
    if "as \<noteq> []" for P' cfg' res and as :: "attempt list"
  proof -
    obtain x h where l: "attempt_loop P' cfg' res as no_attempts [] = (x, h)"
      by (cases "attempt_loop P' cfg' res as no_attempts []")
    from loop_calls_extend [of P' cfg' res as no_attempts "[]"] l that
    have hne: "h \<noteq> []" by auto
    show ?thesis
    proof (cases x)
      case (Inl r)
      with l loop_early_return [of P' cfg' res as no_attempts "[]" r h]
      obtain st v dd where "r = send res 200 (JoinedReply st v dd)" by auto
      with l Inl hne show ?thesis by (simp add: dispatch_def send_def)
    next
      case (Inr le')
      with l loop_message_not_initial [of as no_attempts P' cfg' res "[]" le' h] that
      have "le_message le' \<noteq> ''No attempts made.''" by simp
      with l Inr hne show ?thesis by (simp add: dispatch_def give_up_def send_def)
    qed
  qed
  from h u d show ?thesis by blast
qed

theorem no_candidates_is_terminal_witness:
  "candidates_of sample_platform bare_config (join_request ''a b'' ''Bob'') = Some (Inr [])
 \<and> handler sample_platform bare_config (join_request ''a b'' ''Bob'') =
      (Inr (send (fresh_response bare_config) 500 (FailedReply ''No attempts made.'' JNull)), [])
 \<and> UPSTREAM_URLS bare_config = [] \<and> UPSTREAM_BASE bare_config = []
 \<and> [post_a] \<noteq> []
 \<and> snd (dispatch dead_platform list_config (fresh_response list_config) [post_a]) \<noteq> []
 \<and> res_body (fst (dispatch dead_platform list_config (fresh_response list_config) [post_a]))
      \<noteq> FailedReply ''No attempts made.'' JNull"
proof -
  have c: "candidates_of sample_platform bare_config (join_request ''a b'' ''Bob'') = Some (Inr [])"
    by code_simp
  note T = no_candidates_is_terminal [OF c]
  have ne: "[post_a] \<noteq> []" by simp
  from conjunct1 [OF T] conjunct1 [OF conjunct2 [OF T]] conjunct1 [OF conjunct2 [OF conjunct2 [OF T]]]
    conjunct2 [OF conjunct2 [OF conjunct2 [OF T]], rule_format, OF ne,
      of dead_platform list_config "fresh_response list_config"] c
  show ?thesis by simp
qed

text \<open>
  Claim C10. When some attempt among those built for a request succeeds, the handler
  sends a response, and its status is 200, whatever success status the upstream gave;
  that status is the \<open>upstreamStatus\<close> field of the reply.
\<close>

theorem success_answers_200:
  assumes "candidates_of P cfg req = Some (Inr as)"
    and "k < length as"
    and "succeeded (nth_result P cfg [] as k)"
  shows "\<exists>resp calls. handler P cfg req = (Inr resp, calls)
       \<and> res_status resp = 200
       \<and> (\<exists>j\<le>k. \<exists>r. nth_result P cfg [] as j = Inr r
              \<and> response_ok (status r)
              \<and> res_body resp = JoinedReply (status r) (via r) (data r))"
proof -
  define j where "j = (LEAST i. succeeded (nth_result P cfg [] as i))"
  have sj: "succeeded (nth_result P cfg [] as j)"
    unfolding j_def using assms(3) by (rule LeastI)
  have jk: "j \<le> k" unfolding j_def using assms(3) by (rule Least_le)
  have before: "\<forall>i<j. \<not> succeeded (nth_result P cfg [] as i)"
    unfolding j_def using not_less_Least by blast
  from sj obtain r where r: "nth_result P cfg [] as j = Inr r" "ok r"
    by (auto simp: succeeded_def split: sum.splits)
  have jl: "j < length as" using jk assms(2) by simp
  have via: "via r = info (as ! j)"
    using r(1) by (auto simp: nth_result_def dest: run_attempt_via)
  have okst: "response_ok (status r)"
    using r by (auto simp: nth_result_def run_attempt_def withTimeout_def attempt_body_def Let_def
        split: fetch_result.splits if_splits)
  from loop_first_success [OF jl r before, of "fresh_response cfg" no_attempts]
  have "handler P cfg req =
          (Inr (send (fresh_response cfg) 200 (JoinedReply (status r) (info (as ! j)) (data r))),
           map (call_of P cfg) (take (Suc j) as))"
    using handler_runs_candidates [OF assms(1)] by (simp add: dispatch_def)
  moreover have "res_status (send (fresh_response cfg) 200
      (JoinedReply (status r) (info (as ! j)) (data r))) = 200"
    by (simp add: send_def)
  moreover have "res_body (send (fresh_response cfg) 200
      (JoinedReply (status r) (info (as ! j)) (data r))) = JoinedReply (status r) (via r) (data r)"
    by (simp add: send_def via)
  ultimately show ?thesis using r(1) okst jk by blast
qed

theorem success_answers_200_witness:
  "candidates_of sample_platform list_config (join_request ''a b'' ''Bob'') = Some (Inr sample_attempts)
 \<and> 2 < length sample_attempts
 \<and> succeeded (nth_result sample_platform list_config [] sample_attempts 2)
 \<and> handler sample_platform list_config (join_request ''a b'' ''Bob'') =
      (Inr (send (fresh_response list_config) 200
              (JoinedReply 201 ''POST https://b.test'' (JArr [JNum 7]))),
       map (call_of sample_platform list_config) (take 3 sample_attempts))
 \<and> res_status (send (fresh_response list_config) 200
      (JoinedReply 201 ''POST https://b.test'' (JArr [JNum 7]))) = 200"
proof -
  have c: "candidates_of sample_platform list_config (join_request ''a b'' ''Bob'') =
             Some (Inr sample_attempts)"
    by code_simp
  have k: "2 < length sample_attempts" by code_simp
  have s: "succeeded (nth_result sample_platform list_config [] sample_attempts 2)"
    by code_simp
  have hv: "handler sample_platform list_config (join_request ''a b'' ''Bob'') =
      (Inr (send (fresh_response list_config) 200
              (JoinedReply 201 ''POST https://b.test'' (JArr [JNum 7]))),
       map (call_of sample_platform list_config) (take 3 sample_attempts))"
    by code_simp
  from success_answers_200 [OF c k s]
  obtain resp calls where
    "handler sample_platform list_config (join_request ''a b'' ''Bob'') = (Inr resp, calls)"
    and "res_status resp = 200"
    by blast
  with hv have "res_status (send (fresh_response list_config) 200
      (JoinedReply 201 ''POST https://b.test'' (JArr [JNum 7]))) = 200"
    by simp
  with c k s hv show ?thesis by simp
qed

end
